theory Spec2Isabelle
  imports Complex_Main "HOL-Library.Word"
begin

unbundle bit_operations_syntax

section \<open>Data model (DS7505.h)\<close>

type_synonym byte = "8 word"

text \<open>The four enumerations of the class, each with the numeric value the header gives it.\<close>

datatype Resolution = RES_09 | RES_10 | RES_11 | RES_12

fun Resolution_val :: "Resolution \<Rightarrow> byte" where
  "Resolution_val RES_09 = 0x0"
| "Resolution_val RES_10 = 0x1"
| "Resolution_val RES_11 = 0x2"
| "Resolution_val RES_12 = 0x3"

datatype FaultTolerance = FT_1 | FT_2 | FT_4 | FT_6

fun FaultTolerance_val :: "FaultTolerance \<Rightarrow> byte" where
  "FaultTolerance_val FT_1 = 0x0"
| "FaultTolerance_val FT_2 = 0x1"
| "FaultTolerance_val FT_4 = 0x2"
| "FaultTolerance_val FT_6 = 0x3"

datatype Register = P_TEMP | P_CONF | P_THYST | P_TOS

fun Register_val :: "Register \<Rightarrow> byte" where
  "Register_val P_TEMP = 0x0"
| "Register_val P_CONF = 0x1"
| "Register_val P_THYST = 0x2"
| "Register_val P_TOS = 0x3"

datatype Command = CMD_RECALL_DATA | CMD_COPY_DATA | CMD_POR

fun Command_val :: "Command \<Rightarrow> byte" where
  "Command_val CMD_RECALL_DATA = 0xB8"
| "Command_val CMD_COPY_DATA = 0x48"
| "Command_val CMD_POR = 0x54"

text \<open>
  The two-wire bus (the \<open>Wire\<close> object) is an external collaborator. The model records
  every call the driver makes on it, in order, in a trace; the bytes a slave puts on the
  bus in answer to \<open>requestFrom\<close> are an input of the model and land in the receive
  buffer \<open>rx\<close>. A bus transaction is a block of the trace from a
  \<open>BeginTransmission\<close> to the next \<open>EndTransmission\<close>.
\<close>

datatype wire_call =
    BeginTransmission byte
  | Send byte
  | EndTransmission
  | RequestFrom byte nat
  | Receive

text \<open>
  The object's two private fields, \<open>_i2cAddr\<close> and \<open>_configByte\<close>, together with the
  state of the bus.
\<close>

record DS7505 =
  i2cAddr :: byte
  configByte :: byte
  trace :: "wire_call list"
  rx :: "byte list"

definition Wire_beginTransmission :: "byte \<Rightarrow> DS7505 \<Rightarrow> DS7505" where
  "Wire_beginTransmission a s = s\<lparr>trace := trace s @ [BeginTransmission a]\<rparr>"

definition Wire_send :: "byte \<Rightarrow> DS7505 \<Rightarrow> DS7505" where
  "Wire_send b s = s\<lparr>trace := trace s @ [Send b]\<rparr>"

definition Wire_endTransmission :: "DS7505 \<Rightarrow> DS7505" where
  "Wire_endTransmission s = s\<lparr>trace := trace s @ [EndTransmission]\<rparr>"

section \<open>Configuration register and initialisation (DS7505.cpp, lines 8 to 44)\<close>

text \<open>
  \<open>setConfigRegister(byte configByte)\<close>: one transmission of the register pointer
  \<open>P_CONF\<close> and of the field \<open>_configByte\<close>. The body sends the field, not the
  parameter \<open>configByte\<close>.
\<close>

definition setConfigRegister :: "byte \<Rightarrow> DS7505 \<Rightarrow> DS7505" where
  "setConfigRegister configByte_arg s =
     (let s1 = Wire_beginTransmission (i2cAddr s) s;
          s2 = Wire_send (Register_val P_CONF) s1;
          s3 = Wire_send (configByte s2) s2
      in Wire_endTransmission s3)"

text \<open>\<open>sendCommand(byte cmdSet)\<close>: one transmission of the command code alone.\<close>

definition sendCommand :: "byte \<Rightarrow> DS7505 \<Rightarrow> DS7505" where
  "sendCommand cmdSet s =
     (let s1 = Wire_beginTransmission (i2cAddr s) s;
          s2 = Wire_send cmdSet s1
      in Wire_endTransmission s2)"

text \<open>
  \<open>init(a2, a1, a0, res)\<close>. The operands are promoted to \<open>int\<close> and the result is
  stored in a \<open>uint8_t\<close>; since \<open>&\<close>, \<open>|\<close> and \<open><<\<close> commute with the truncation to
  eight bits, the computation is written on bytes. In C++ \<open><<\<close> binds tighter than
  \<open>|\<close>.
\<close>

definition init :: "byte \<Rightarrow> byte \<Rightarrow> byte \<Rightarrow> Resolution \<Rightarrow> DS7505 \<Rightarrow> DS7505" where
  "init a2 a1 a0 res s =
     (let s1 = s\<lparr>configByte := push_bit 5 (Resolution_val res)\<rparr>;
          s2 = s1\<lparr>i2cAddr := 0x48 OR push_bit 2 (a2 AND 0x1) OR push_bit 1 (a1 AND 0x1)
                              OR (a0 AND 0x1)\<rparr>
      in setConfigRegister (configByte s2) s2)"

text \<open>A freshly constructed object on an idle bus, used for concrete runs.\<close>

definition fresh :: DS7505 where
  "fresh = \<lparr>i2cAddr = 0, configByte = 0, trace = [], rx = []\<rparr>"

section \<open>Temperatures\<close>

text \<open>
  A C++ \<open>float\<close> is a finite number, an infinity or NaN. The finite values are modelled
  as real numbers, which is exact for the code below: the constants (0.5, 0.25, 0.125,
  0.0625, 55, 125) are binary fractions, every comparison is exact, a remainder
  \<open>x - trunc x\<close> or \<open>r - w\<close> with \<open>w \<le> r\<close> of a float is again a float, and the
  decoded sum has at most twelve significant bits.
\<close>

datatype cfloat = Fin real | PInf | MInf | NaN

text \<open>The comparisons \<open>x < y\<close> and \<open>x >= y\<close>; both are false when an operand is NaN.
  \<open>x > y\<close> is \<open>y < x\<close>.\<close>

fun f_less :: "cfloat \<Rightarrow> cfloat \<Rightarrow> bool" where
  "f_less (Fin a) (Fin b) = (a < b)"
| "f_less (Fin a) PInf = True"
| "f_less MInf (Fin b) = True"
| "f_less MInf PInf = True"
| "f_less _ _ = False"

fun f_ge :: "cfloat \<Rightarrow> cfloat \<Rightarrow> bool" where
  "f_ge (Fin a) (Fin b) = (a \<ge> b)"
| "f_ge PInf (Fin b) = True"
| "f_ge PInf PInf = True"
| "f_ge PInf MInf = True"
| "f_ge (Fin a) MInf = True"
| "f_ge MInf MInf = True"
| "f_ge _ _ = False"

text \<open>Negation, \<open>fabs\<close> of the C library, and the subtraction of a finite number.\<close>

fun f_neg :: "cfloat \<Rightarrow> cfloat" where
  "f_neg (Fin a) = Fin (- a)"
| "f_neg PInf = MInf"
| "f_neg MInf = PInf"
| "f_neg NaN = NaN"

fun fabs :: "cfloat \<Rightarrow> cfloat" where
  "fabs (Fin a) = Fin \<bar>a\<bar>"
| "fabs PInf = PInf"
| "fabs MInf = PInf"
| "fabs NaN = NaN"

fun f_sub :: "cfloat \<Rightarrow> real \<Rightarrow> cfloat" where
  "f_sub (Fin a) c = Fin (a - c)"
| "f_sub PInf c = PInf"
| "f_sub MInf c = MInf"
| "f_sub NaN c = NaN"

text \<open>
  The casts \<open>(int) x\<close> and \<open>(byte) x\<close> of a float truncate towards zero. The byte cast
  is defined in C++ for truncated values from 0 to 255, which is all the code feeds it on
  finite accepted inputs. C++ leaves the conversion of an infinity or of NaN undefined: the
  integer it yields on the platform is the parameter \<open>u\<close> of the model, and every
  statement below holds for every \<open>u\<close>. (Where the code converts such a value to
  \<open>int\<close>, it subtracts the result from the same infinity or NaN, so only the byte cast
  lets \<open>u\<close> show.)
\<close>

fun float_to_int :: "int \<Rightarrow> cfloat \<Rightarrow> int" where
  "float_to_int u (Fin x) = (if 0 \<le> x then \<lfloor>x\<rfloor> else \<lceil>x\<rceil>)"
| "float_to_int u _ = u"

definition float_to_byte :: "int \<Rightarrow> cfloat \<Rightarrow> byte" where
  "float_to_byte u x = word_of_int (float_to_int u x)"

text \<open>
  Modelled from the spec: the macro \<open>abs\<close> comes from the Arduino core header
  (\<open>WProgram.h\<close>), which is not among the sources; the spec calls its result the
  absolute value. The core defines it as \<open>((x)>0?(x):-(x))\<close>. The code only uses
  the truncation of its result, \<open>(byte) abs(x)\<close> and \<open>(int) abs(x)\<close>, which is the
  same number if \<open>abs\<close> is the integer function of the C library instead.
\<close>

definition abs_macro :: "cfloat \<Rightarrow> cfloat" where
  "abs_macro x = (if f_less (Fin 0) x then x else f_neg x)"

subsection \<open>Reading a temperature register (DS7505.cpp, lines 47 to 77)\<close>

text \<open>
  Lines 66 to 76, from the two received bytes to the returned value. In C++ \<open>==\<close> binds
  tighter than \<open>&\<close>, so the condition of line 66 is \<open>h & (0x80 == 0x80)\<close>, that is
  \<open>h & 1\<close>. The variable \<open>s\<close> is assigned and never read; the function returns
  \<open>temp\<close>.
\<close>

definition getTemp_decode :: "byte \<Rightarrow> byte \<Rightarrow> real" where
  "getTemp_decode h0 l =
     (let (s, h) = (if h0 AND of_bool ((0x80 :: int) = 0x80) \<noteq> 0
                    then (- 1.0 :: real, h0 AND 0x7f)
                    else (1.0, h0));
          temp = 0.5 * real (unat (drop_bit 7 (l AND 0x80)))
               + 0.25 * real (unat (drop_bit 6 (l AND 0x40)))
               + 0.125 * real (unat (drop_bit 5 (l AND 0x20)))
               + 0.0625 * real (unat (drop_bit 4 (l AND 0x10)))
               + real (unat h)
      in temp)"

definition Wire_requestFrom :: "byte \<Rightarrow> nat \<Rightarrow> byte list \<Rightarrow> DS7505 \<Rightarrow> DS7505" where
  "Wire_requestFrom a n reply s = s\<lparr>trace := trace s @ [RequestFrom a n], rx := take n reply\<rparr>"

definition Wire_available :: "DS7505 \<Rightarrow> nat" where
  "Wire_available s = length (rx s)"

text \<open>\<open>Wire.receive()\<close> takes the next byte of the receive buffer (0 when it is empty).\<close>

definition Wire_receive :: "DS7505 \<Rightarrow> byte \<times> DS7505" where
  "Wire_receive s =
     (case rx s of
        [] \<Rightarrow> (0, s\<lparr>trace := trace s @ [Receive]\<rparr>)
      | b # bs \<Rightarrow> (b, s\<lparr>trace := trace s @ [Receive], rx := bs\<rparr>))"

text \<open>The busy wait \<open>while (!Wire.available()) { }\<close>: it never returns on an empty buffer.\<close>

partial_function (option) wait_available :: "DS7505 \<Rightarrow> DS7505 option" where
  "wait_available s = (if Wire_available s = 0 then wait_available s else Some s)"

text \<open>\<open>getTemp(regPdef)\<close>; \<open>reply\<close> is what the slave sends when two bytes are requested.\<close>

definition getTemp :: "byte list \<Rightarrow> Register \<Rightarrow> DS7505 \<Rightarrow> (real \<times> DS7505) option" where
  "getTemp reply regPdef s =
     (let s1 = Wire_beginTransmission (i2cAddr s) s;
          s2 = Wire_send (Register_val regPdef) s1;
          s3 = Wire_endTransmission s2;
          s4 = Wire_requestFrom (i2cAddr s3) 2 reply s3
      in case wait_available s4 of
           None \<Rightarrow> None
         | Some s5 \<Rightarrow>
             (let (h, s6) = Wire_receive s5
              in case wait_available s6 of
                   None \<Rightarrow> None
                 | Some s7 \<Rightarrow>
                     (let (l, s8) = Wire_receive s7;
                          s9 = Wire_endTransmission s8
                      in Some (getTemp_decode h l, s9))))"

subsection \<open>Setting the thermostat (DS7505.cpp, lines 84 to 166)\<close>

text \<open>
  The function computes the two register bytes of \<open>tos\<close> (lines 93 to 119) and of
  \<open>thyst\<close> (lines 121 to 147) by the same statements; they are written once here, as
  functions of the temperature. High byte, lines 93 to 98: the negative branch combines
  \<open>0x80\<close> and the magnitude with \<open>&\<close>.
\<close>

definition encode_h :: "int \<Rightarrow> cfloat \<Rightarrow> byte" where
  "encode_h u t =
     (if f_ge t (Fin 0) then float_to_byte u t
      else 0x80 AND float_to_byte u (abs_macro t))"

text \<open>Low byte, lines 90 and 100 to 119.\<close>

definition encode_l :: "int \<Rightarrow> cfloat \<Rightarrow> byte" where
  "encode_l u t =
     (let l0 = (0 :: byte);
          r0 = f_sub (fabs t) (of_int (float_to_int u (abs_macro t)));
          (l1, r1) = (if f_ge r0 (Fin 0.5) then (l0 OR 0x80, f_sub r0 0.5) else (l0, r0));
          (l2, r2) = (if f_ge r1 (Fin 0.25) then (l1 OR 0x40, f_sub r1 0.25) else (l1, r1));
          (l3, r3) = (if f_ge r2 (Fin 0.125) then (l2 OR 0x20, f_sub r2 0.125) else (l2, r2));
          l4 = (if f_ge r3 (Fin 0.0625) then l3 OR 0x10 else l3)
      in l4)"

text \<open>
  The whole function. Line 86 rejects by five comparisons, each of which is false on NaN.
\<close>

definition setThermostat ::
  "int \<Rightarrow> cfloat \<Rightarrow> cfloat \<Rightarrow> FaultTolerance \<Rightarrow> DS7505 \<Rightarrow> DS7505" where
  "setThermostat u tos thyst ft s =
     (if f_less tos thyst \<or> f_less tos (Fin (- 55.0)) \<or> f_less thyst (Fin (- 55.0))
         \<or> f_less (Fin 125.0) tos \<or> f_less (Fin 125.0) thyst
      then s
      else
        (let tos_h = encode_h u tos;
             tos_l = encode_l u tos;
             thyst_h = encode_h u thyst;
             thyst_l = encode_l u thyst;
             s1 = Wire_beginTransmission (i2cAddr s) s;
             s2 = Wire_send (Register_val P_TOS) s1;
             s3 = Wire_send tos_h s2;
             s4 = Wire_send tos_l s3;
             s5 = Wire_endTransmission s4;
             s6 = Wire_beginTransmission (i2cAddr s5) s5;
             s7 = Wire_send (Register_val P_THYST) s6;
             s8 = Wire_send thyst_h s7;
             s9 = Wire_send thyst_l s8;
             s10 = Wire_endTransmission s9;
             s11 = s10\<lparr>configByte := configByte s10 AND 0xE7\<rparr>;
             s12 = s11\<lparr>configByte := configByte s11 OR push_bit 3 (FaultTolerance_val ft)\<rparr>
         in setConfigRegister (configByte s12) s12))"

section \<open>The specification's wording, for comparison\<close>

text \<open>
  The decode as the specification words it: sign from bit 7 of the high byte, integer part
  the low seven bits when the sign is set, result sign times (integer part + fraction).
\<close>

definition decode_spec :: "byte \<Rightarrow> byte \<Rightarrow> real" where
  "decode_spec h l =
     (let sg = (if bit h 7 then - 1 else 1 :: real);
          ip = (if bit h 7 then h AND 0x7F else h);
          frac = 0.5 * of_bool (bit l 7) + 0.25 * of_bool (bit l 6)
               + 0.125 * of_bool (bit l 5) + 0.0625 * of_bool (bit l 4)
      in sg * (real (unat ip) + frac))"

text \<open>
  The operating range as the specification words it: a temperature in [-55.0, 125.0].
\<close>

fun in_range :: "cfloat \<Rightarrow> bool" where
  "in_range (Fin x) = (- 55 \<le> x \<and> x \<le> 125)"
| "in_range _ = False"

text \<open>
  The low byte as the specification words it: a greedy decomposition of a remainder against
  a list of weights in the given order, setting the bit of each weight that fits and
  subtracting it.
\<close>

fun greedy :: "(real \<times> byte) list \<Rightarrow> real \<Rightarrow> byte \<Rightarrow> byte" where
  "greedy [] r acc = acc"
| "greedy ((w, b) # ws) r acc =
     (if r \<ge> w then greedy ws (r - w) (acc OR b) else greedy ws r acc)"

definition weights :: "(real \<times> byte) list" where
  "weights = [(0.5, 0x80), (0.25, 0x40), (0.125, 0x20), (0.0625, 0x10)]"

text \<open>The value of the four fraction bits of a low byte, most significant first.\<close>

definition frac4 :: "bool \<Rightarrow> bool \<Rightarrow> bool \<Rightarrow> bool \<Rightarrow> real" where
  "frac4 b7 b6 b5 b4 =
     0.5 * of_bool b7 + 0.25 * of_bool b6 + 0.125 * of_bool b5 + 0.0625 * of_bool b4"

section \<open>The bus calls of each operation\<close>

lemmas Wire_defs =
  Wire_beginTransmission_def Wire_send_def Wire_endTransmission_def

lemma setConfigRegister_state:
  "setConfigRegister b s =
     s\<lparr>trace := trace s @ [BeginTransmission (i2cAddr s), Send (Register_val P_CONF),
                             Send (configByte s), EndTransmission]\<rparr>"
  by (simp add: setConfigRegister_def Wire_defs)

lemma sendCommand_state:
  "sendCommand c s =
     s\<lparr>trace := trace s @ [BeginTransmission (i2cAddr s), Send c, EndTransmission]\<rparr>"
  by (simp add: sendCommand_def Wire_defs)

lemma init_i2cAddr:
  "i2cAddr (init a2 a1 a0 res s) =
     0x48 OR push_bit 2 (a2 AND 0x1) OR push_bit 1 (a1 AND 0x1) OR (a0 AND 0x1)"
  by (simp add: init_def setConfigRegister_state Let_def)

lemma init_configByte:
  "configByte (init a2 a1 a0 res s) = push_bit 5 (Resolution_val res)"
  by (simp add: init_def setConfigRegister_state Let_def)

lemma init_trace:
  "trace (init a2 a1 a0 res s) =
     trace s @ [BeginTransmission (i2cAddr (init a2 a1 a0 res s)), Send 0x1,
                Send (push_bit 5 (Resolution_val res)), EndTransmission]"
  by (simp add: init_def setConfigRegister_state Let_def)

lemma resolution_field_only: "push_bit 5 (Resolution_val res) AND 0x9F = 0"
  by (cases res) simp_all

lemma byte_le_1: "x \<le> 1 \<Longrightarrow> x = 0 \<or> x = 1" for x :: byte
  by (auto simp: word_le_nat_alt word_unat_eq_iff le_Suc_eq)

section \<open>The busy wait and the read\<close>

lemma wait_available_ready: "Wire_available s \<noteq> 0 \<Longrightarrow> wait_available s = Some s"
  by (subst wait_available.simps) simp

lemma wait_available_Some: "wait_available s = Some y \<Longrightarrow> Wire_available s \<noteq> 0"
  by (rule wait_available.raw_induct[where P="\<lambda>s y. Wire_available s \<noteq> 0"])
     (fastforce split: if_splits)+

lemma wait_available_blocks: "Wire_available s = 0 \<Longrightarrow> wait_available s = None"
  using wait_available_Some by (cases "wait_available s") auto

text \<open>With two bytes on the bus the read returns their decoded value.\<close>

lemma getTemp_returns:
  "getTemp (h # l # rest) regPdef s =
     Some (getTemp_decode h l,
           s\<lparr>trace := trace s @ [BeginTransmission (i2cAddr s), Send (Register_val regPdef),
                 EndTransmission, RequestFrom (i2cAddr s) 2, Receive, Receive, EndTransmission],
              rx := []\<rparr>)"
  by (simp add: getTemp_def Wire_defs Wire_requestFrom_def Wire_receive_def
      wait_available_ready Wire_available_def)

text \<open>With fewer than two bytes it never returns.\<close>

lemma getTemp_blocks_empty: "getTemp [] regPdef s = None"
  by (simp add: getTemp_def Wire_defs Wire_requestFrom_def
      wait_available_blocks Wire_available_def)

lemma getTemp_blocks_one: "getTemp [h] regPdef s = None"
  by (simp add: getTemp_def Wire_defs Wire_requestFrom_def Wire_receive_def
      wait_available_blocks wait_available_ready Wire_available_def)

lemma getTemp_Some_decode:
  assumes "getTemp reply regPdef s = Some (t, s')"
  shows "\<exists>h l rest. reply = h # l # rest \<and> t = getTemp_decode h l"
proof (cases reply)
  case Nil
  with assms show ?thesis by (simp add: getTemp_blocks_empty)
next
  case (Cons h tl)
  show ?thesis
  proof (cases tl)
    case Nil
    with Cons assms show ?thesis by (simp add: getTemp_blocks_one)
  next
    case (Cons l rest)
    with \<open>reply = h # tl\<close> assms show ?thesis by (simp add: getTemp_returns)
  qed
qed

section \<open>The decode in terms of bits\<close>

lemma drop_and_bit:
  "drop_bit 7 (l AND 0x80 :: byte) = of_bool (bit l 7)"
  "drop_bit 6 (l AND 0x40 :: byte) = of_bool (bit l 6)"
  "drop_bit 5 (l AND 0x20 :: byte) = of_bool (bit l 5)"
  "drop_bit 4 (l AND 0x10 :: byte) = of_bool (bit l 4)"
  by (simp_all add: and_one_eq bit_iff_odd_drop_bit mod_2_eq_odd)

lemma and_1_bit0: "(h AND 1 \<noteq> 0) = bit h 0" for h :: byte
  by (simp add: and_one_eq bit_0 mod_2_eq_odd)

text \<open>The branch of line 66 is taken on bit 0 of the high byte.\<close>

lemma getTemp_decode_bits:
  "getTemp_decode h l =
     frac4 (bit l 7) (bit l 6) (bit l 5) (bit l 4)
     + real (unat (if bit h 0 then h AND 0x7f else h))"
  unfolding getTemp_decode_def Let_def drop_and_bit frac4_def
  by (simp add: and_1_bit0 del: of_nat_unat)

lemma frac4_range: "0 \<le> frac4 b7 b6 b5 b4 \<and> frac4 b7 b6 b5 b4 < 1"
  by (cases b7; cases b6; cases b5; cases b4) (simp_all add: frac4_def)

lemma getTemp_decode_nonneg: "0 \<le> getTemp_decode h l"
proof -
  have "0 \<le> frac4 (bit l 7) (bit l 6) (bit l 5) (bit l 4)"
    using frac4_range by blast
  then show ?thesis
    unfolding getTemp_decode_bits by (intro add_nonneg_nonneg) (simp_all del: of_nat_unat)
qed

section \<open>The encode on finite values and on NaN\<close>


lemma abs_macro_Fin: "abs_macro (Fin x) = Fin \<bar>x\<bar>"
  by (simp add: abs_macro_def)

lemma abs_macro_NaN: "abs_macro NaN = NaN"
  by (simp add: abs_macro_def)

text \<open>On a finite value the two bytes are these functions of the number.\<close>

lemma encode_h_Fin:
  "encode_h u (Fin t) = (if t \<ge> 0 then word_of_int \<lfloor>t\<rfloor> else 0x80 AND word_of_int \<lfloor>\<bar>t\<bar>\<rfloor>)"
  by (simp add: encode_h_def float_to_byte_def abs_macro_Fin)

lemma remainder_Fin:
  "f_sub (fabs (Fin t)) (of_int (float_to_int u (abs_macro (Fin t)))) = Fin (\<bar>t\<bar> - of_int \<lfloor>\<bar>t\<bar>\<rfloor>)"
  by (simp add: abs_macro_Fin)

lemma encode_l_Fin:
  "encode_l u (Fin t) =
     (let l0 = (0 :: byte);
          r0 = \<bar>t\<bar> - of_int \<lfloor>\<bar>t\<bar>\<rfloor>;
          (l1, r1) = (if r0 \<ge> 0.5 then (l0 OR 0x80, r0 - 0.5) else (l0, r0));
          (l2, r2) = (if r1 \<ge> 0.25 then (l1 OR 0x40, r1 - 0.25) else (l1, r1));
          (l3, r3) = (if r2 \<ge> 0.125 then (l2 OR 0x20, r2 - 0.125) else (l2, r2));
          l4 = (if r3 \<ge> 0.0625 then l3 OR 0x10 else l3)
      in l4)"
  unfolding encode_l_def remainder_Fin by (simp add: Let_def)

text \<open>On NaN every comparison fails: the low byte is 0 and the high byte is bit 7 of whatever
  the byte cast yields.\<close>

lemma encode_NaN: "encode_h u NaN = 0x80 AND word_of_int u" "encode_l u NaN = 0"
  by (simp_all add: encode_h_def encode_l_def float_to_byte_def abs_macro_NaN)





lemma bits_of_low:
  fixes L :: byte
  assumes "L = push_bit 7 (of_bool b7) OR push_bit 6 (of_bool b6)
             OR push_bit 5 (of_bool b5) OR push_bit 4 (of_bool b4)"
  shows "bit L 7 = b7" "bit L 6 = b6" "bit L 5 = b5" "bit L 4 = b4"
  unfolding assms by (simp_all add: bit_simps)

lemma idx8:
  "i < 8 \<Longrightarrow> i = 0 \<or> i = 1 \<or> i = 2 \<or> i = 3 \<or> i = 4 \<or> i = 5 \<or> i = 6 \<or> i = (7::nat)"
  by arith




section \<open>The high byte of a negative temperature\<close>

text \<open>
  Every negative temperature that passes the range check has the high byte 0: the magnitude
  is below 128, so it has no bit in common with \<open>0x80\<close>.
\<close>

lemma encode_h_below_zero:
  assumes "- 128 < t" "t < 0"
  shows "encode_h u (Fin t) = 0"
proof -
  define k where "k = \<lfloor>\<bar>t\<bar>\<rfloor>"
  have k: "0 \<le> k" "k < 128"
    using assms unfolding k_def by linarith+
  have "(0x80 :: byte) AND word_of_int k = 0"
  proof (rule bit_word_eqI)
    fix n assume n: "n < LENGTH(8)"
    have "\<not> bit k 7"
      using k by (simp add: bit_iff_odd_drop_bit drop_bit_eq_div)
    then show "bit ((0x80 :: byte) AND word_of_int k) n = bit (0 :: byte) n"
      using idx8[of n] n by (auto simp add: bit_simps)
  qed
  then show ?thesis
    using assms by (simp add: encode_h_Fin k_def)
qed

section \<open>The fault-tolerance field\<close>

lemma ft_frame:
  "i \<noteq> 3 \<Longrightarrow> i \<noteq> 4 \<Longrightarrow>
   bit (x AND 0xE7 OR push_bit 3 (FaultTolerance_val ft)) i = bit (x::byte) i"
proof (cases "i < 8")
  case True
  assume "i \<noteq> 3" "i \<noteq> 4"
  with idx8[OF True] show ?thesis
    by (cases ft) (auto simp add: bit_simps)
next
  case False
  then show ?thesis by (auto dest: bit_imp_le_length)
qed

lemma ft_field:
  "drop_bit 3 ((x AND 0xE7 OR push_bit 3 (FaultTolerance_val ft)) AND 0x18)
     = FaultTolerance_val ft"
  for x :: byte
  by (cases ft) (simp_all add: word_ao_dist word_bw_assocs)

section \<open>The range check of line 86\<close>

text \<open>What a call does when none of the five comparisons of line 86 holds.\<close>

lemma setThermostat_state:
  assumes "\<not> (f_less tos thyst \<or> f_less tos (Fin (- 55)) \<or> f_less thyst (Fin (- 55))
              \<or> f_less (Fin 125) tos \<or> f_less (Fin 125) thyst)"
  shows "setThermostat u tos thyst ft s =
     s\<lparr>configByte := configByte s AND 0xE7 OR push_bit 3 (FaultTolerance_val ft),
        trace := trace s @
          [BeginTransmission (i2cAddr s), Send 0x3, Send (encode_h u tos), Send (encode_l u tos),
           EndTransmission,
           BeginTransmission (i2cAddr s), Send 0x2, Send (encode_h u thyst),
           Send (encode_l u thyst), EndTransmission,
           BeginTransmission (i2cAddr s), Send 0x1,
           Send (configByte s AND 0xE7 OR push_bit 3 (FaultTolerance_val ft)),
           EndTransmission]\<rparr>"
  using assms by (simp add: setThermostat_def setConfigRegister_state Wire_defs Let_def)

text \<open>
  A call whose arguments are not NaN and that breaks the precondition (trip below
  hysteresis, or a temperature outside [-55, 125], infinities included) returns the state
  it was given.
\<close>

lemma setThermostat_rejects_unless_NaN:
  assumes "tos \<noteq> NaN" and "thyst \<noteq> NaN"
    and "f_less tos thyst \<or> \<not> in_range tos \<or> \<not> in_range thyst"
  shows "setThermostat u tos thyst ft s = s"
proof -
  have "f_less tos thyst \<or> f_less tos (Fin (- 55)) \<or> f_less thyst (Fin (- 55))
        \<or> f_less (Fin 125) tos \<or> f_less (Fin 125) thyst"
    using assms by (cases tos; cases thyst) auto
  then show ?thesis
    by (simp add: setThermostat_def)
qed

lemma setThermostat_rejects_finite:
  "tos < thyst \<or> tos < - 55 \<or> tos > 125 \<or> thyst < - 55 \<or> thyst > 125
     \<Longrightarrow> setThermostat u (Fin tos) (Fin thyst) ft s = s"
  by (auto simp add: setThermostat_def)

lemma setThermostat_rejects_above_125:
  assumes "125 < v"
  shows "setThermostat u (Fin v) x ft s = s" and "setThermostat u x (Fin v) ft s = s"
  using assms by (simp_all add: setThermostat_def)

section \<open>The claims\<close>

text \<open>
  C1. The specification says that the decode of \<open>getTemp\<close> takes the sign from bit 7 of
  the high byte, masks the integer part with \<open>0x7F\<close> when it is set, and returns sign
  times (integer part + fraction). The code tests bit 0 instead (operator precedence in
  line 66) and never applies the sign it computes: for the bytes \<open>(0x81, 0x00)\<close> it
  returns 1 where the specified decode gives -1, and for \<open>(0x80, 0x00)\<close> it returns 128
  where the specified decode gives 0.
\<close>

theorem getTemp_decode_ignores_sign:
  "getTemp_decode 0x81 0x00 = 1 \<and> decode_spec 0x81 0x00 = - 1
   \<and> getTemp_decode 0x80 0x00 = 128 \<and> decode_spec 0x80 0x00 = 0
   \<and> map_option fst (getTemp [0x81, 0x00] P_TEMP s) = Some 1"
  by (simp add: getTemp_returns) (simp add: getTemp_decode_def decode_spec_def)

text \<open>
  C2. The specification says that a negative value in range is encoded with a high byte of
  \<open>0x80\<close> OR-ed with the floored magnitude. The code combines the two with AND
  (lines 97 and 125): for -10 the high byte is \<open>0x00\<close>, where the specified byte is
  \<open>0x8A\<close>, and \<open>setThermostat(-10, -20, FT_1)\<close> sends zero bytes to both setpoint
  registers.
\<close>

theorem encode_h_negative_example:
  "encode_h u (Fin (- 10)) = 0x00
   \<and> 0x80 OR float_to_byte u (abs_macro (Fin (- 10))) = 0x8A
   \<and> trace (setThermostat u (Fin (- 10)) (Fin (- 20)) FT_1 fresh) =
       [BeginTransmission 0, Send 0x3, Send 0x00, Send 0x00, EndTransmission,
        BeginTransmission 0, Send 0x2, Send 0x00, Send 0x00, EndTransmission,
        BeginTransmission 0, Send 0x1, Send 0x00, EndTransmission]"
  by (simp add: setThermostat_def setConfigRegister_state Wire_defs fresh_def Let_def
      encode_h_Fin encode_l_Fin float_to_byte_def abs_macro_Fin)

text \<open>
  C3. The specification says that \<open>setConfigRegister(b)\<close> writes the register pointer
  CONFIG followed by the byte \<open>b\<close>. The code sends the cached field \<open>_configByte\<close>
  and ignores its argument: after \<open>init(0, 0, 0, RES_12)\<close> the cached byte is
  \<open>0x60\<close>, and \<open>setConfigRegister(0x00)\<close> puts \<open>0x01, 0x60\<close> on the bus.
\<close>

theorem setConfigRegister_sends_cached_byte:
  "configByte (init 0 0 0 RES_12 fresh) = 0x60
   \<and> trace (setConfigRegister 0x00 (init 0 0 0 RES_12 fresh)) =
       trace (init 0 0 0 RES_12 fresh)
       @ [BeginTransmission 0x48, Send 0x1, Send 0x60, EndTransmission]"
  by (simp add: setConfigRegister_state init_i2cAddr init_configByte)

text \<open>
  C4. The specification says that every call \<open>setThermostat(tos, thyst, ft)\<close> with
  \<open>tos < thyst\<close>, or with \<open>tos\<close> or \<open>thyst\<close> outside [-55, 125], is a no-op: no
  bus transaction, cached configuration byte unchanged; so \<open>setThermostat(10, 20, FT_1)\<close>
  does nothing. The code rejects by the five comparisons of line 86, and all of them are
  false on NaN, which is not in [-55, 125]: \<open>setThermostat(NaN, NaN, FT_6)\<close> after
  \<open>init(0, 0, 0, RES_12)\<close> makes the three transmissions and changes the cached byte
  from \<open>0x60\<close> to \<open>0x78\<close>, and \<open>setThermostat(NaN, 20, FT_1)\<close> writes the registers
  too. On arguments that are not NaN the code does what the specification says
  (\<open>setThermostat_rejects_unless_NaN\<close>).
\<close>

theorem setThermostat_accepts_NaN:
  "\<not> in_range NaN
   \<and> setThermostat u (Fin 10.0) (Fin 20.0) FT_1 s = s
   \<and> setThermostat u NaN NaN FT_6 (init 0 0 0 RES_12 fresh) =
       (init 0 0 0 RES_12 fresh)
       \<lparr>configByte := 0x78,
        trace := [BeginTransmission 0x48, Send 0x1, Send 0x60, EndTransmission,
                  BeginTransmission 0x48, Send 0x3, Send (0x80 AND word_of_int u), Send 0x00,
                  EndTransmission,
                  BeginTransmission 0x48, Send 0x2, Send (0x80 AND word_of_int u), Send 0x00,
                  EndTransmission,
                  BeginTransmission 0x48, Send 0x1, Send 0x78, EndTransmission]\<rparr>
   \<and> trace (setThermostat u NaN (Fin 20.0) FT_1 fresh) =
       [BeginTransmission 0, Send 0x3, Send (0x80 AND word_of_int u), Send 0x00,
        EndTransmission,
        BeginTransmission 0, Send 0x2, Send 0x14, Send 0x00, EndTransmission,
        BeginTransmission 0, Send 0x1, Send 0x00, EndTransmission]"
proof -
  have g1: "\<not> (f_less NaN NaN \<or> f_less NaN (Fin (- 55)) \<or> f_less NaN (Fin (- 55))
              \<or> f_less (Fin 125) NaN \<or> f_less (Fin 125) NaN)"
    by simp
  have g2: "\<not> (f_less NaN (Fin 20.0) \<or> f_less NaN (Fin (- 55)) \<or> f_less (Fin 20.0) (Fin (- 55))
              \<or> f_less (Fin 125) NaN \<or> f_less (Fin 125) (Fin 20.0))"
    by simp
  have e: "encode_h u (Fin 20.0) = 0x14" "encode_l u (Fin 20.0) = 0"
    by (simp_all add: encode_h_Fin encode_l_Fin)
  have i: "init 0 0 0 RES_12 fresh =
      \<lparr>i2cAddr = 0x48, configByte = 0x60,
       trace = [BeginTransmission 0x48, Send 0x1, Send 0x60, EndTransmission], rx = []\<rparr>"
    by (simp add: init_def setConfigRegister_state fresh_def Let_def)
  show ?thesis
    unfolding setThermostat_state[OF g1] setThermostat_state[OF g2] encode_NaN i
    using e by (simp add: fresh_def setThermostat_rejects_finite)
qed




text \<open>
  C6. An accepted call \<open>setThermostat(tos, thyst, ft)\<close> makes three transmissions, in
  this order: the trip register pointer with the two bytes of \<open>tos\<close>, the hysteresis
  register pointer with the two bytes of \<open>thyst\<close>, and the configuration register
  pointer with the new cached configuration byte, which is the old one with bits 4 and 3
  cleared (mask \<open>0xE7\<close>) and \<open>ft << 3\<close> OR-ed in. Every bit of the cached byte other
  than bits 4 and 3 keeps its value, and bits 4 and 3 hold \<open>ft\<close>.
\<close>

theorem setThermostat_accepted:
  assumes "thyst \<le> tos" and "- 55 \<le> tos" and "- 55 \<le> thyst"
    and "tos \<le> 125" and "thyst \<le> 125"
  shows "setThermostat u (Fin tos) (Fin thyst) ft s =
     s\<lparr>configByte := configByte s AND 0xE7 OR push_bit 3 (FaultTolerance_val ft),
        trace := trace s @
          [BeginTransmission (i2cAddr s), Send (Register_val P_TOS),
             Send (encode_h u (Fin tos)), Send (encode_l u (Fin tos)), EndTransmission,
           BeginTransmission (i2cAddr s), Send (Register_val P_THYST),
             Send (encode_h u (Fin thyst)), Send (encode_l u (Fin thyst)), EndTransmission,
           BeginTransmission (i2cAddr s), Send (Register_val P_CONF),
             Send (configByte s AND 0xE7 OR push_bit 3 (FaultTolerance_val ft)),
             EndTransmission]\<rparr>
   \<and> (\<forall>i. i \<noteq> 3 \<and> i \<noteq> 4 \<longrightarrow>
         bit (configByte (setThermostat u (Fin tos) (Fin thyst) ft s)) i = bit (configByte s) i)
   \<and> drop_bit 3 (configByte (setThermostat u (Fin tos) (Fin thyst) ft s) AND 0x18)
       = FaultTolerance_val ft"
proof -
  have acc: "\<not> (f_less (Fin tos) (Fin thyst) \<or> f_less (Fin tos) (Fin (- 55))
               \<or> f_less (Fin thyst) (Fin (- 55)) \<or> f_less (Fin 125) (Fin tos)
               \<or> f_less (Fin 125) (Fin thyst))"
    using assms by simp
  have cfg: "configByte (setThermostat u (Fin tos) (Fin thyst) ft s) =
      configByte s AND 0xE7 OR push_bit 3 (FaultTolerance_val ft)"
    by (simp add: setThermostat_state[OF acc])
  have "\<forall>i. i \<noteq> 3 \<and> i \<noteq> 4 \<longrightarrow>
         bit (configByte (setThermostat u (Fin tos) (Fin thyst) ft s)) i = bit (configByte s) i"
    unfolding cfg using ft_frame by blast
  moreover have
    "drop_bit 3 (configByte (setThermostat u (Fin tos) (Fin thyst) ft s) AND 0x18)
       = FaultTolerance_val ft"
    unfolding cfg by (rule ft_field)
  ultimately show ?thesis
    using setThermostat_state[OF acc, of u ft s] by simp
qed

text \<open>
  The run of the specification: after \<open>init(0, 0, 0, RES_12)\<close> the call
  \<open>setThermostat(32.45, 30.14, FT_6)\<close> writes the trip register, then the hysteresis
  register, then the configuration \<open>0x78\<close>: resolution bits \<open>11\<close> kept,
  fault-tolerance bits \<open>11\<close>.
\<close>

theorem setThermostat_accepted_witness:
  "(30.14 :: real) \<le> 32.45 \<and> (- 55 :: real) \<le> 32.45 \<and> (- 55 :: real) \<le> 30.14
   \<and> (32.45 :: real) \<le> 125 \<and> (30.14 :: real) \<le> 125
   \<and> configByte (init 0 0 0 RES_12 fresh) = 0x60
   \<and> configByte (setThermostat 0 (Fin 32.45) (Fin 30.14) FT_6 (init 0 0 0 RES_12 fresh)) = 0x78
   \<and> trace (setThermostat 0 (Fin 32.45) (Fin 30.14) FT_6 (init 0 0 0 RES_12 fresh)) =
       [BeginTransmission 0x48, Send 0x1, Send 0x60, EndTransmission,
        BeginTransmission 0x48, Send 0x3, Send 0x20, Send 0x70, EndTransmission,
        BeginTransmission 0x48, Send 0x2, Send 0x1E, Send 0x20, EndTransmission,
        BeginTransmission 0x48, Send 0x1, Send 0x78, EndTransmission]"
proof -
  have e: "encode_h 0 (Fin 32.45) = 0x20" "encode_l 0 (Fin 32.45) = 0x70"
          "encode_h 0 (Fin 30.14) = 0x1E" "encode_l 0 (Fin 30.14) = 0x20"
    by (simp_all add: encode_h_Fin encode_l_Fin)
  show ?thesis
    using setThermostat_accepted [where tos = "32.45" and thyst = "30.14" and ft = FT_6
        and s = "init 0 0 0 RES_12 fresh" and u = 0] e
    by (simp add: init_i2cAddr init_configByte init_trace fresh_def)
qed

text \<open>
  C7. \<open>init(a2, a1, a0, res)\<close> sets the bus address to
  \<open>0x48 | (a2&1)<<2 | (a1&1)<<1 | (a0&1)\<close> and the cached configuration byte to
  \<open>res << 5\<close>, whose bits outside the resolution field (bits 6 and 5) are zero. For
  strap bits in {0, 1} the address is 0x48 + 4 a2 + 2 a1 + a0; \<open>init(0,0,0,RES_12)\<close>
  gives address \<open>0x48\<close> and \<open>init(1,1,1,RES_12)\<close> gives \<open>0x4F\<close>.
\<close>

theorem init_address_and_config:
  "i2cAddr (init a2 a1 a0 res s) =
     0x48 OR push_bit 2 (a2 AND 1) OR push_bit 1 (a1 AND 1) OR (a0 AND 1)
   \<and> configByte (init a2 a1 a0 res s) = push_bit 5 (Resolution_val res)
   \<and> configByte (init a2 a1 a0 res s) AND 0x9F = 0
   \<and> (a2 \<le> 1 \<and> a1 \<le> 1 \<and> a0 \<le> 1 \<longrightarrow>
        unat (i2cAddr (init a2 a1 a0 res s)) = 72 + 4 * unat a2 + 2 * unat a1 + unat a0)
   \<and> i2cAddr (init 0 0 0 RES_12 s) = 0x48
   \<and> i2cAddr (init 1 1 1 RES_12 s) = 0x4F"
proof -
  have "unat (i2cAddr (init a2 a1 a0 res s)) = 72 + 4 * unat a2 + 2 * unat a1 + unat a0"
    if "a2 \<le> 1" "a1 \<le> 1" "a0 \<le> 1"
  proof -
    from that have "(a2 = 0 \<or> a2 = 1) \<and> (a1 = 0 \<or> a1 = 1) \<and> (a0 = 0 \<or> a0 = 1)"
      using byte_le_1 by blast
    then show ?thesis
      by (auto simp add: init_i2cAddr)
  qed
  then show ?thesis
    by (simp add: init_i2cAddr init_configByte resolution_field_only)
qed

theorem init_address_and_config_witness:
  "(1 :: byte) \<le> 1 \<and> unat (i2cAddr (init 1 1 1 RES_12 fresh)) = 79
   \<and> configByte (init 1 1 1 RES_12 fresh) = 0x60"
  using init_address_and_config [of 1 1 1 RES_12 fresh]
  by simp

text \<open>
  C8. The decode maps the bytes \<open>(0x20, 0x00)\<close> to 32.0, \<open>(0x20, 0x80)\<close> to 32.5 and
  \<open>(0x00, 0x00)\<close> to 0.0, and \<open>getTemp\<close> returns these values when the bus delivers
  these bytes.
\<close>

theorem getTemp_decode_examples:
  "getTemp_decode 0x20 0x00 = 32.0 \<and> getTemp_decode 0x20 0x80 = 32.5
   \<and> getTemp_decode 0x00 0x00 = 0.0
   \<and> map_option fst (getTemp [0x20, 0x00] regPdef s) = Some 32.0
   \<and> map_option fst (getTemp [0x20, 0x80] regPdef s) = Some 32.5
   \<and> map_option fst (getTemp [0x00, 0x00] regPdef s) = Some 0.0"
  by (simp add: getTemp_returns) (simp add: getTemp_decode_def)

text \<open>
  C9. For every finite value, so for every value in the valid range, the low byte
  computed by the encode is the greedy decomposition of the remainder \<open>|value| - floor |value|\<close> against the weights 0.5, 0.25, 0.125, 0.0625
  in descending order, a weight's bit being set and the weight subtracted whenever the
  remainder is at least the weight. Encoding 32.45 gives the high byte \<open>0x20\<close> and the
  low byte \<open>0x70\<close>, and so does the single-precision float nearest to 32.45.
\<close>

theorem encode_l_greedy:
  "encode_l u (Fin t) = greedy weights (\<bar>t\<bar> - of_int \<lfloor>\<bar>t\<bar>\<rfloor>) 0
   \<and> encode_h u (Fin 32.45) = 0x20 \<and> encode_l u (Fin 32.45) = 0x70
   \<and> encode_h u (Fin (8506573 / 262144)) = 0x20
   \<and> encode_l u (Fin (8506573 / 262144)) = 0x70"
proof -
  have "encode_l u (Fin t) = greedy weights (\<bar>t\<bar> - of_int \<lfloor>\<bar>t\<bar>\<rfloor>) 0"
    by (simp add: encode_l_Fin weights_def Let_def)
  moreover have "encode_h u (Fin 32.45) = 0x20 \<and> encode_l u (Fin 32.45) = 0x70"
    by (simp add: encode_h_Fin encode_l_Fin)
  moreover have "encode_h u (Fin (8506573 / 262144)) = 0x20
      \<and> encode_l u (Fin (8506573 / 262144)) = 0x70"
    by (simp add: encode_h_Fin encode_l_Fin)
  ultimately show ?thesis by blast
qed

text \<open>
  C10. For every pair of bytes, also with bit 7 of the high byte set, the decoded value is
  not negative, and whatever \<open>getTemp\<close> returns is not negative.
\<close>

theorem getTemp_nonneg:
  "0 \<le> getTemp_decode h l
   \<and> (\<forall>t s'. getTemp reply regPdef s = Some (t, s') \<longrightarrow> 0 \<le> t)"
  using getTemp_decode_nonneg getTemp_Some_decode by blast

theorem getTemp_nonneg_witness:
  "getTemp [0x81, 0x00] P_TOS fresh =
     Some (1, fresh\<lparr>trace := [BeginTransmission 0, Send 0x3, EndTransmission,
                              RequestFrom 0 2, Receive, Receive, EndTransmission]\<rparr>)
   \<and> (0 :: real) \<le> 1 \<and> 0 \<le> getTemp_decode 0x81 0x00"
  using getTemp_nonneg [of "0x81" "0x00" "[0x81, 0x00]" P_TOS fresh]
  by (simp add: getTemp_returns fresh_def) (simp add: getTemp_decode_def)

end
